theory Spec2Isabelle
  imports Main "HOL-Library.Sublist"
begin

section \<open>JavaScript values, rows and errors\<close>

text \<open>
  The wrapper \<^verbatim>\<open>MyDatabase\<close> (index.js) only moves values around: it reads the keys
  and values of row objects, tests arguments for truthiness, and puts strings into
  template literals. A value is one of the JavaScript values that can reach it; an object
  is the list of its own properties in the order \<^verbatim>\<open>Object.keys\<close> enumerates them.
  \<^verbatim>\<open>JNum\<close> stands for the integer-valued numbers.
\<close>

datatype jsval = JUndefined | JNull | JNum int | JStr string | JObj "(string \<times> jsval) list"

type_synonym row = "(string \<times> jsval) list"

text \<open>An \<^verbatim>\<open>Error\<close> object, by its message.\<close>

datatype jserror = Error string

text \<open>\<^verbatim>\<open>row.name\<close>: the property, or \<^verbatim>\<open>undefined\<close> when the object has none of that name.\<close>

definition get :: "row \<Rightarrow> string \<Rightarrow> jsval" where
  "get r k = (case map_of r k of Some v \<Rightarrow> v | None \<Rightarrow> JUndefined)"

text \<open>Truthiness, and \<^verbatim>\<open>a || b\<close>.\<close>

fun truthy :: "jsval \<Rightarrow> bool" where
  "truthy JUndefined = False"
| "truthy JNull = False"
| "truthy (JNum n) = (n \<noteq> 0)"
| "truthy (JStr s) = (s \<noteq> [])"
| "truthy (JObj ps) = True"

definition js_or :: "jsval \<Rightarrow> jsval \<Rightarrow> jsval" where
  "js_or a b = (if truthy a then a else b)"

text \<open>String conversion, as a template literal \<^verbatim>\<open>`${v}`\<close> performs it.\<close>

fun digits :: "nat \<Rightarrow> string" where
  "digits n = (if n < 10 then [''0123456789'' ! n]
               else digits (n div 10) @ [''0123456789'' ! (n mod 10)])"

declare digits.simps [simp del]

fun to_string :: "jsval \<Rightarrow> string" where
  "to_string JUndefined = ''undefined''"
| "to_string JNull = ''null''"
| "to_string (JNum n) = (if n < 0 then ''-'' @ digits (nat (- n)) else digits (nat n))"
| "to_string (JStr s) = s"
| "to_string (JObj ps) = ''[object Object]''"

fun error_to_string :: "jserror \<Rightarrow> string" where
  "error_to_string (Error m) = ''Error: '' @ m"

text \<open>\<^verbatim>\<open>xs.join(sep)\<close> on an array of strings.\<close>

fun join :: "string \<Rightarrow> string list \<Rightarrow> string" where
  "join sep [] = []"
| "join sep [x] = x"
| "join sep (x # y # ys) = x @ sep @ join sep (y # ys)"

section \<open>The embedded engine and deferred results\<close>

text \<open>
  The engine (the \<^verbatim>\<open>sqlite3\<close> driver behind \<^verbatim>\<open>this.#db\<close>) is not part of the wrapper;
  it is a parameter. The wrapper hands it statements: \<^verbatim>\<open>db.run(sql, values, callback)\<close>
  (\<^verbatim>\<open>db.run(sql, callback)\<close> is the call with no values) and \<^verbatim>\<open>db.all(sql, callback)\<close>.
  The engine answers each one through its callback, with an error or with the rows
  (a successful \<^verbatim>\<open>run\<close> has no rows), and moves its own state \<open>'s\<close> on.
\<close>

datatype stmt = Run string "jsval list" | All string

datatype reply = Failure jserror | Success "row list"

type_synonym 's engine = "stmt \<Rightarrow> 's \<Rightarrow> reply \<times> 's"

text \<open>
  A promise is pending until it is fulfilled or rejected. A call of a method either throws
  before it returns, or returns a promise; with it come the statements the call handed to
  the engine, in the order of the calls, and the engine's state once it has answered.
\<close>

datatype 'a promise = Pending | Fulfilled 'a | Rejected jserror

datatype 'a completion = Throws jserror | Returns "'a promise"

record ('s, 'a) outcome =
  completion :: "'a completion"
  issued :: "stmt list"
  db :: 's

text \<open>
  Statements issued together are in the engine's hands at the same time. The engine works
  on one statement at a time, in an order of its own: \<open>ord\<close> lists the positions of the
  statements in the order in which the engine runs and finishes them. A position outside
  the batch means nothing, a repeated one counts once, and a statement whose position is
  missing never finishes.
\<close>

fun complete :: "'s engine \<Rightarrow> stmt list \<Rightarrow> nat list \<Rightarrow> 's \<Rightarrow> (nat \<times> reply) list \<times> 's" where
  "complete E qs [] s = ([], s)"
| "complete E qs (i # ord) s =
     (if i < length qs then
        (let (r, s1) = E (qs ! i) s; (evs, s2) = complete E qs ord s1
         in ((i, r) # evs, s2))
      else complete E qs ord s)"

definition batch :: "'s engine \<Rightarrow> stmt list \<Rightarrow> nat list \<Rightarrow> 's \<Rightarrow> (nat \<times> reply) list \<times> 's" where
  "batch E qs ord s = complete E qs (remdups ord) s"

text \<open>
  \<^verbatim>\<open>Promise.all\<close> over \<open>n\<close> promises, given their settlements in the order in which they
  happen (\<open>Inl\<close> a rejection, \<open>Inr\<close> a fulfilment): it rejects with the first rejection,
  is fulfilled with all the values, in the order of the promises, once every one of them is
  fulfilled, and stays pending otherwise.
\<close>

fun first_rejection :: "(nat \<times> (jserror + 'a)) list \<Rightarrow> jserror option" where
  "first_rejection [] = None"
| "first_rejection ((i, Inl e) # evs) = Some e"
| "first_rejection ((i, Inr v) # evs) = first_rejection evs"

definition fulfilment :: "(nat \<times> (jserror + 'a)) list \<Rightarrow> nat \<Rightarrow> 'a option" where
  "fulfilment evs i = (case map_of evs i of Some (Inr v) \<Rightarrow> Some v | _ \<Rightarrow> None)"

definition promise_all :: "nat \<Rightarrow> (nat \<times> (jserror + 'a)) list \<Rightarrow> 'a list promise" where
  "promise_all n evs =
     (case first_rejection evs of
        Some e \<Rightarrow> Rejected e
      | None \<Rightarrow> (case those (map (fulfilment evs) [0..<n]) of
                  Some vs \<Rightarrow> Fulfilled vs
                | None \<Rightarrow> Pending))"

text \<open>
  The callback every \<^verbatim>\<open>db.run\<close> of the wrapper gets:
  \<^verbatim>\<open>error => { if (error) reject(new Error(`${error}`)); else resolve(); }\<close>
\<close>

fun run_callback :: "reply \<Rightarrow> jserror + unit" where
  "run_callback (Failure error) = Inl (Error (error_to_string error))"
| "run_callback (Success rows) = Inr ()"

section \<open>The wrapper\<close>

subsection \<open>insertRows\<close>

text \<open>The statement \<^verbatim>\<open>insertRows\<close> builds for one row (the body of \<^verbatim>\<open>rows.map\<close>).\<close>

definition insert_stmt :: "string \<Rightarrow> row \<Rightarrow> stmt" where
  "insert_stmt tableName row =
     (let keys = map fst row;
          values = map snd row;
          query = (''INSERT INTO '' @ tableName @ '' ('' @ join '', '' keys @ '')'')
                  @ (''VALUES ('' @ join '', '' (map (\<lambda>_. ''?'') keys) @ '')'')
      in Run query values)"

definition insertRows ::
  "'s engine \<Rightarrow> string \<Rightarrow> row list \<Rightarrow> nat list \<Rightarrow> 's \<Rightarrow> ('s, unit list) outcome" where
  "insertRows E tableName rows ord s =
     (let stmts = map (insert_stmt tableName) rows;
          (evs, s') = batch E stmts ord s;
          promises = map (\<lambda>(i, r). (i, run_callback r)) evs
      in \<lparr>completion = Returns (promise_all (length stmts) promises),
          issued = stmts, db = s'\<rparr>)"

subsection \<open>Static members and the constructor\<close>

text \<open>
  \<^verbatim>\<open>static #DATABASE_FILE_PATH = join(__dirname, 'my_database.db')\<close>, with the module's
  directory as a parameter, and \<^verbatim>\<open>static #ALTER_OPERATION\<close>. Both are private; the class's
  public static members are the two getters \<^verbatim>\<open>DatabaseFilePath\<close> and \<^verbatim>\<open>AlterOperation\<close>,
  and reading any other static property of \<^verbatim>\<open>MyDatabase\<close> gives \<^verbatim>\<open>undefined\<close>.
\<close>

definition DATABASE_FILE_PATH :: "string \<Rightarrow> string" where
  "DATABASE_FILE_PATH dirname = dirname @ ''/my_database.db''"

definition ALTER_OPERATION :: row where
  "ALTER_OPERATION = [(''ADD'', JStr ''ADD''), (''DROP'', JStr ''DROP'')]"

definition MyDatabase_static :: "string \<Rightarrow> string \<Rightarrow> jsval" where
  "MyDatabase_static dirname property =
     (if property = ''DatabaseFilePath'' then JStr (DATABASE_FILE_PATH dirname)
      else if property = ''AlterOperation'' then JObj ALTER_OPERATION
      else JUndefined)"

text \<open>
  The constructor: \<^verbatim>\<open>new Database(filePath || MyDatabase.DATABASE_FILE_PATH)\<close>, then the
  pragma, whose error goes to \<^verbatim>\<open>console.error\<close> and nowhere else. \<open>opn\<close> is the engine's
  \<^verbatim>\<open>Database\<close> constructor: it makes a connection of its argument, or throws (the driver
  takes a string only). When it throws, the wrapper's constructor throws with it: no pragma
  is issued and there is no connection. An omitted argument is \<^verbatim>\<open>undefined\<close>. The name
  that asks the engine for an in-memory database is \<^verbatim>\<open>':memory:'\<close>, as the repository's
  test passes it.
\<close>

record 's facade =
  opened :: jsval
  thrown :: "jserror option"
  logged :: "jserror list"
  startup :: "stmt list"
  connection :: "'s option"

definition constructor ::
  "(jsval \<Rightarrow> jserror + 's) \<Rightarrow> 's engine \<Rightarrow> string \<Rightarrow> jsval \<Rightarrow> 's facade" where
  "constructor opn E dirname filePath =
     (let target = js_or filePath (MyDatabase_static dirname ''DATABASE_FILE_PATH'')
      in case opn target of
           Inl error \<Rightarrow>
             \<lparr>opened = target, thrown = Some error, logged = [], startup = [], connection = None\<rparr>
         | Inr s0 \<Rightarrow>
             (let q = Run ''PRAGMA foreign_keys = ON;'' [];
                  (r, s) = E q s0
              in \<lparr>opened = target, thrown = None,
                  logged = (case r of Failure error \<Rightarrow> [error] | Success rows \<Rightarrow> []),
                  startup = [q], connection = Some s\<rparr>))"

definition in_memory :: jsval where
  "in_memory = JStr '':memory:''"

subsection \<open>createTable\<close>

text \<open>A promise settled by one callback.\<close>

fun settle :: "jserror + 'a \<Rightarrow> 'a promise" where
  "settle (Inl e) = Rejected e"
| "settle (Inr v) = Fulfilled v"

definition createTable :: "'s engine \<Rightarrow> string \<Rightarrow> string list \<Rightarrow> 's \<Rightarrow> ('s, unit) outcome" where
  "createTable E tableName columns s =
     (let q = Run (''CREATE TABLE IF NOT EXISTS '' @ tableName @ '' ('' @ join '', '' columns @ '')'') [];
          (r, s') = E q s
      in \<lparr>completion = Returns (settle (run_callback r)), issued = [q], db = s'\<rparr>)"

subsection \<open>alterTable\<close>

text \<open>
  \<^verbatim>\<open>Object.values(MyDatabase.AlterOperation)\<close> and \<^verbatim>\<open>includes\<close>; the operation is whatever
  value the caller passes. \<^verbatim>\<open>Promise.resolve()\<close> is fulfilled with \<^verbatim>\<open>undefined\<close> (\<open>None\<close>),
  \<^verbatim>\<open>Promise.all\<close> with an array.
\<close>

definition alterTable ::
  "'s engine \<Rightarrow> string \<Rightarrow> jsval \<Rightarrow> string list \<Rightarrow> nat list \<Rightarrow> 's \<Rightarrow> ('s, unit list option) outcome" where
  "alterTable E tableName operation columns ord s =
     (let allowedOperations = map snd ALTER_OPERATION in
      if operation \<notin> set allowedOperations then
        \<lparr>completion = Throws (Error (''Invalid operation. The operation must be one of: ''
                                    @ join '', '' (map to_string allowedOperations))),
         issued = [], db = s\<rparr>
      else if columns \<noteq> [] then
        (let queries = map (\<lambda>columnDef. ''ALTER TABLE '' @ tableName @ '' '' @ to_string operation
                                         @ '' COLUMN '' @ columnDef) columns;
             stmts = map (\<lambda>query. Run query []) queries;
             (evs, s') = batch E stmts ord s;
             promises = map (\<lambda>(i, r). (i, run_callback r)) evs
         in \<lparr>completion = Returns (case promise_all (length stmts) promises of
                                     Pending \<Rightarrow> Pending
                                   | Fulfilled vs \<Rightarrow> Fulfilled (Some vs)
                                   | Rejected e \<Rightarrow> Rejected e),
             issued = stmts, db = s'\<rparr>)
      else \<lparr>completion = Returns (Fulfilled None), issued = [], db = s\<rparr>)"

subsection \<open>getTableColumns and getAllTables\<close>

text \<open>The object \<^verbatim>\<open>{ name: column.name, type: column.type }\<close>.\<close>

definition column_info :: "row \<Rightarrow> row" where
  "column_info column = [(''name'', get column ''name''), (''type'', get column ''type'')]"

text \<open>The callback of \<^verbatim>\<open>getTableColumns\<close> rejects with the engine's error as it is.\<close>

fun columns_callback :: "reply \<Rightarrow> jserror + row list" where
  "columns_callback (Failure error) = Inl error"
| "columns_callback (Success columns) = Inr (map column_info columns)"

text \<open>The statement \<^verbatim>\<open>`PRAGMA table_info(${tableName});`\<close>.\<close>

definition table_info :: "string \<Rightarrow> stmt" where
  "table_info tableName = All (''PRAGMA table_info('' @ tableName @ '');'')"

definition getTableColumns :: "'s engine \<Rightarrow> string \<Rightarrow> 's \<Rightarrow> ('s, row list) outcome" where
  "getTableColumns E tableName s =
     (let q = table_info tableName;
          (r, s') = E q s
      in \<lparr>completion = Returns (settle (columns_callback r)), issued = [q], db = s'\<rparr>)"

text \<open>
  \<^verbatim>\<open>getAllTables\<close>: the callback of the catalog query is an \<^verbatim>\<open>async\<close> function. On an
  error it calls \<^verbatim>\<open>reject(error)\<close> and goes on to \<^verbatim>\<open>tables.map\<close>, which throws inside the
  callback, the promise being rejected already. Otherwise it starts one \<^verbatim>\<open>getTableColumns\<close>
  per table and calls \<^verbatim>\<open>resolve(await Promise.all(tablePromises))\<close>: when one of them
  rejects, the \<^verbatim>\<open>await\<close> throws inside the callback, which rejects the callback's own
  promise, and neither \<^verbatim>\<open>resolve\<close> nor \<^verbatim>\<open>reject\<close> is ever called.
  An entry \<^verbatim>\<open>{ tableName, columns }\<close> is a pair.
\<close>

definition catalog_query :: string where
  \<open>catalog_query = ''SELECT * FROM sqlite_master WHERE type="table"''\<close>

definition getAllTables ::
  "'s engine \<Rightarrow> nat list \<Rightarrow> 's \<Rightarrow> ('s, (jsval \<times> row list) list) outcome" where
  "getAllTables E ord s =
     (let q = All catalog_query;
          (r, s1) = E q s
      in case r of
           Failure error \<Rightarrow> \<lparr>completion = Returns (Rejected error), issued = [q], db = s1\<rparr>
         | Success tables \<Rightarrow>
             (let tableNames = map (\<lambda>table. get table ''name'') tables;
                  stmts = map (\<lambda>tableName. table_info (to_string tableName)) tableNames;
                  (evs, s2) = batch E stmts ord s1;
                  tablePromises = map (\<lambda>(i, r). (i, case columns_callback r of
                                                      Inl error \<Rightarrow> Inl error
                                                    | Inr columns \<Rightarrow> Inr (tableNames ! i, columns))) evs
              in \<lparr>completion = Returns (case promise_all (length stmts) tablePromises of
                                          Pending \<Rightarrow> Pending
                                        | Fulfilled entries \<Rightarrow> Fulfilled entries
                                        | Rejected e \<Rightarrow> Pending),
                  issued = q # stmts, db = s2\<rparr>))"

text \<open>The SQL text of a statement.\<close>

fun sql_text :: "stmt \<Rightarrow> string" where
  "sql_text (Run sql vs) = sql"
| "sql_text (All sql) = sql"

section \<open>An engine for the examples\<close>

text \<open>
  A stand-in engine on which the properties below are run. Its state lists the statements
  that took effect; a statement that took effect already succeeds again and changes
  nothing. Its catalog lists one table, and that one it cannot describe: the name has a
  blank in it, so that the pragma's text does not parse. Nor does the pragma's text for
  the empty name. There is one column it cannot drop.
\<close>

definition demo_engine :: "stmt list engine" where
  \<open>demo_engine q s =
     (case q of
        Run sql vs \<Rightarrow>
          if sql = ''ALTER TABLE users DROP COLUMN missing''
          then (Failure (Error ''SQLITE_ERROR: no such column: "missing"''), s)
          else if q \<in> set s then (Success [], s)
          else (Success [], s @ [q])
      | All sql \<Rightarrow>
          if sql = catalog_query
          then (Success [[(''type'', JStr ''table''), (''name'', JStr ''my table'')]], s)
          else if sql = ''PRAGMA table_info(users);''
          then (Success [[(''cid'', JNum 0), (''name'', JStr ''id''), (''type'', JStr ''INTEGER'')],
                         [(''cid'', JNum 1), (''name'', JStr ''name''), (''type'', JStr ''TEXT'')]], s)
          else if sql = ''PRAGMA table_info(my table);''
          then (Failure (Error ''SQLITE_ERROR: near "table": syntax error''), s)
          else if sql = ''PRAGMA table_info();''
          then (Failure (Error ''SQLITE_ERROR: near ")": syntax error''), s)
          else (Success [], s))\<close>

section \<open>Properties\<close>

subsection \<open>Batches and \<^verbatim>\<open>Promise.all\<close>\<close>

lemma complete_fst: "map fst (fst (complete E qs ord s)) = filter (\<lambda>i. i < length qs) ord"
proof (induction ord arbitrary: s)
  case Nil
  show ?case by simp
next
  case (Cons i ord)
  show ?case
  proof (cases "i < length qs")
    case True
    obtain r s1 where e: "E (qs ! i) s = (r, s1)" by (cases "E (qs ! i) s")
    obtain evs s2 where c: "complete E qs ord s1 = (evs, s2)" by (cases "complete E qs ord s1")
    have "map fst evs = filter (\<lambda>i. i < length qs) ord"
      using Cons.IH [of s1] c by simp
    then show ?thesis using True e c by simp
  next
    case False
    then show ?thesis using Cons.IH [of s] by simp
  qed
qed

lemma batch_distinct: "distinct (map fst (fst (batch E qs ord s)))"
  by (simp add: batch_def complete_fst)

lemma batch_bound: "(i, r) \<in> set (fst (batch E qs ord s)) \<Longrightarrow> i < length qs"
proof -
  assume "(i, r) \<in> set (fst (batch E qs ord s))"
  then have "i \<in> set (map fst (fst (batch E qs ord s)))" by force
  then show ?thesis by (simp add: batch_def complete_fst)
qed

lemma batch_Nil: "batch E [] ord s = ([], s)"
proof -
  have "complete E [] xs s = ([], s)" for xs
    by (induction xs) auto
  then show ?thesis by (simp add: batch_def)
qed

lemma first_rejection_None: "first_rejection evs = None \<longleftrightarrow> (\<forall>i e. (i, Inl e) \<notin> set evs)"
  by (induction evs rule: first_rejection.induct) auto

lemma first_rejection_Some: "first_rejection evs = Some e \<Longrightarrow> \<exists>i. (i, Inl e) \<in> set evs"
  by (induction evs rule: first_rejection.induct) auto

lemma those_map: "those (map f xs) = Some vs \<longleftrightarrow> (\<forall>x\<in>set xs. f x \<noteq> None) \<and> vs = map (\<lambda>x. the (f x)) xs"
  by (induction xs arbitrary: vs) (auto split: option.splits)

lemma promise_all_rejected:
  "(\<exists>e. promise_all n evs = Rejected e) \<longleftrightarrow> (\<exists>i e. (i, Inl e) \<in> set evs)"
proof (cases "first_rejection evs")
  case None
  then show ?thesis
    by (auto simp: promise_all_def first_rejection_None split: option.splits)
next
  case (Some e)
  then show ?thesis
    using first_rejection_Some [OF Some] by (auto simp: promise_all_def)
qed

lemma promise_all_fulfilled:
  assumes "distinct (map fst evs)"
  shows "(\<exists>vs. promise_all n evs = Fulfilled vs) \<longleftrightarrow>
         (\<forall>i e. (i, Inl e) \<notin> set evs) \<and> (\<forall>i<n. \<exists>v. (i, Inr v) \<in> set evs)"
proof -
  have m: "map_of evs i = Some x \<longleftrightarrow> (i, x) \<in> set evs" for i x
    using assms by (auto dest: map_of_SomeD)
  have f: "fulfilment evs i \<noteq> None \<longleftrightarrow> (\<exists>v. (i, Inr v) \<in> set evs)" for i
    by (auto simp: fulfilment_def m [symmetric] split: option.splits sum.splits)
  have t: "(\<exists>vs. those (map (fulfilment evs) [0..<n]) = Some vs) \<longleftrightarrow>
           (\<forall>i<n. \<exists>v. (i, Inr v) \<in> set evs)"
    using f by (auto simp: those_map)
  show ?thesis
  proof (cases "first_rejection evs")
    case None
    have "(\<exists>vs. promise_all n evs = Fulfilled vs) \<longleftrightarrow>
          (\<exists>vs. those (map (fulfilment evs) [0..<n]) = Some vs)"
      by (cases "those (map (fulfilment evs) [0..<n])") (simp_all add: promise_all_def None)
    then show ?thesis
      using None t by (simp add: first_rejection_None)
  next
    case (Some e)
    then show ?thesis
      using first_rejection_Some [OF Some] by (auto simp: promise_all_def)
  qed
qed

lemma promise_all_rejected_with:
  "promise_all n evs = Rejected e \<Longrightarrow> \<exists>i. (i, Inl e) \<in> set evs"
  by (cases "first_rejection evs")
     (auto simp: promise_all_def dest: first_rejection_Some split: option.splits)

lemma run_callback_Inl:
  "(i, Inl e) \<in> set (map (\<lambda>(i, r). (i, run_callback r)) evs) \<longleftrightarrow>
   (\<exists>e0. (i, Failure e0) \<in> set evs \<and> e = Error (error_to_string e0))"
proof (induction evs)
  case Nil
  show ?case by simp
next
  case (Cons x evs)
  obtain j r where x: "x = (j, r)" by (cases x)
  show ?case using Cons.IH by (cases r) (auto simp: x)
qed

lemma run_callback_Inr:
  "(i, Inr v) \<in> set (map (\<lambda>(i, r). (i, run_callback r)) evs) \<longleftrightarrow>
   (\<exists>rows. (i, Success rows) \<in> set evs)"
proof (induction evs)
  case Nil
  show ?case by simp
next
  case (Cons x evs)
  obtain j r where x: "x = (j, r)" by (cases x)
  show ?case using Cons.IH by (cases r) (auto simp: x)
qed

lemma map_fst_tag: "map fst (map (\<lambda>(i, r). (i, f i r)) evs) = map fst evs"
  by (induction evs) auto

subsection \<open>insertRows\<close>

lemma join_placeholders: "map (\<lambda>_. ''?'') ks = replicate (length ks) ''?''"
  by (induction ks) simp_all

lemma insert_stmt_text:
  "insert_stmt tableName row =
     Run (''INSERT INTO '' @ tableName @ '' ('' @ join '', '' (map fst row)
          @ '')VALUES ('' @ join '', '' (replicate (length row) ''?'') @ '')'') (map snd row)"
  by (simp add: insert_stmt_def Let_def join_placeholders)

text \<open>
  C1. For every table name and rows, the statements \<^verbatim>\<open>insertRows\<close> hands to the engine are,
  row by row, the text \<^verbatim>\<open>INSERT INTO tableName (k1, k2, ...)VALUES (?, ?, ...)\<close> with the
  row's keys in their order and one \<^verbatim>\<open>?\<close> per key, together with the row's values, in the
  same order, as the statement's parameter list. The values are no part of the text:
  changing them in any way leaves the text as it is. (The text has a blank after each
  comma and none before \<^verbatim>\<open>VALUES\<close>.)
\<close>

theorem insertRows_statements:
  "issued (insertRows E tableName rows ord s) =
     map (\<lambda>row. Run (''INSERT INTO '' @ tableName @ '' ('' @ join '', '' (map fst row)
                      @ '')VALUES ('' @ join '', '' (replicate (length row) ''?'') @ '')'')
                     (map snd row)) rows
   \<and> sql_text (insert_stmt tableName (map (\<lambda>(k, v). (k, f k v)) row)) = sql_text (insert_stmt tableName row)"
proof
  show "issued (insertRows E tableName rows ord s) =
     map (\<lambda>row. Run (''INSERT INTO '' @ tableName @ '' ('' @ join '', '' (map fst row)
                      @ '')VALUES ('' @ join '', '' (replicate (length row) ''?'') @ '')'')
                     (map snd row)) rows"
    by (simp add: insertRows_def Let_def insert_stmt_text split: prod.splits)
next
  have "map fst (map (\<lambda>(k, v). (k, f k v)) row) = map fst row"
    by (induction row) auto
  then show "sql_text (insert_stmt tableName (map (\<lambda>(k, v). (k, f k v)) row)) = sql_text (insert_stmt tableName row)"
    by (simp only: insert_stmt_text sql_text.simps length_map)
qed

theorem insertRows_statements_witness:
  \<open>issued (insertRows demo_engine ''users''
      [[(''name'', JStr ''O'Brien"); DROP TABLE users; --''), (''age'', JNum 30)], [(''name'', JStr ''B'')]] [1, 0] [])
   = [Run ''INSERT INTO users (name, age)VALUES (?, ?)'' [JStr ''O'Brien"); DROP TABLE users; --'', JNum 30],
      Run ''INSERT INTO users (name)VALUES (?)'' [JStr ''B'']]\<close>
  using insertRows_statements [of demo_engine "''users''"
      \<open>[[(''name'', JStr ''O'Brien"); DROP TABLE users; --''), (''age'', JNum 30)], [(''name'', JStr ''B'')]]\<close> "[1, 0]" "[]"]
  by simp

text \<open>
  C10. With no rows, \<^verbatim>\<open>insertRows\<close> hands nothing to the engine, its promise is fulfilled
  (with the empty array), and the database is as it was.
\<close>

theorem insertRows_no_rows:
  "insertRows E tableName [] ord s = \<lparr>completion = Returns (Fulfilled []), issued = [], db = s\<rparr>"
  by (simp add: insertRows_def batch_Nil promise_all_def)

theorem insertRows_no_rows_witness:
  "insertRows demo_engine ''users'' [] [0] [] = \<lparr>completion = Returns (Fulfilled []), issued = [], db = []\<rparr>"
  using insertRows_no_rows [of demo_engine "''users''" "[0]" "[]"] by simp

subsection \<open>alterTable\<close>

text \<open>
  C5. An operation that is neither \<^verbatim>\<open>'ADD'\<close> nor \<^verbatim>\<open>'DROP'\<close> makes \<^verbatim>\<open>alterTable\<close> throw,
  whatever the table and the column definitions: no promise is returned, no statement is
  handed to the engine, and the database is as it was.
\<close>

theorem alterTable_invalid_operation:
  assumes "operation \<noteq> JStr ''ADD''" and "operation \<noteq> JStr ''DROP''"
  shows "alterTable E tableName operation columns ord s =
         \<lparr>completion = Throws (Error ''Invalid operation. The operation must be one of: ADD, DROP''),
          issued = [], db = s\<rparr>"
  using assms by (simp add: alterTable_def ALTER_OPERATION_def)

theorem alterTable_invalid_operation_witness:
  "JStr ''MODIFY'' \<noteq> JStr ''ADD'' \<and> JStr ''MODIFY'' \<noteq> JStr ''DROP'' \<and>
   alterTable demo_engine ''users'' (JStr ''MODIFY'') [''age INTEGER''] [0] [] =
     \<lparr>completion = Throws (Error ''Invalid operation. The operation must be one of: ADD, DROP''),
      issued = [], db = []\<rparr>"
  using alterTable_invalid_operation [of "JStr ''MODIFY''" demo_engine "''users''" "[''age INTEGER'']" "[0]" "[]"]
  by simp

text \<open>
  C6. With a valid operation and no column definition, \<^verbatim>\<open>alterTable\<close> returns a fulfilled
  promise, hands nothing to the engine, and the database is as it was.
\<close>

theorem alterTable_no_columns:
  assumes "operation = JStr ''ADD'' \<or> operation = JStr ''DROP''"
  shows "alterTable E tableName operation [] ord s =
         \<lparr>completion = Returns (Fulfilled None), issued = [], db = s\<rparr>"
  using assms by (auto simp: alterTable_def ALTER_OPERATION_def)

theorem alterTable_no_columns_witness:
  "alterTable demo_engine ''users'' (JStr ''DROP'') [] [] [] =
         \<lparr>completion = Returns (Fulfilled None), issued = [], db = []\<rparr>"
  using alterTable_no_columns [of "JStr ''DROP''" demo_engine "''users''" "[]" "[]"]
  by simp

text \<open>
  C7. With a valid operation and at least one column definition, \<^verbatim>\<open>alterTable\<close> hands
  the engine one statement \<^verbatim>\<open>ALTER TABLE name operation COLUMN columnDef\<close> per column
  definition, each a statement of its own. In whatever order the engine finishes them:
  the returned promise is fulfilled exactly when every one of the statements has finished
  without an error, and it is rejected exactly when one that has finished has failed, with
  an \<^verbatim>\<open>Error\<close> that wraps the text of a failed statement's error. The database is then in
  the state in which the batch has left it.
\<close>

theorem alterTable_batch:
  assumes "operation = JStr op" and "op = ''ADD'' \<or> op = ''DROP''" and "columns \<noteq> []"
  shows "let stmts = map (\<lambda>columnDef. Run (''ALTER TABLE '' @ tableName @ '' '' @ op @ '' COLUMN '' @ columnDef) [])
                         columns;
             finished = fst (batch E stmts ord s);
             out = alterTable E tableName operation columns ord s
         in issued out = stmts \<and> length stmts = length columns \<and> db out = snd (batch E stmts ord s) \<and>
            ((\<exists>v. completion out = Returns (Fulfilled v)) \<longleftrightarrow>
               (\<forall>i<length columns. \<exists>rows. (i, Success rows) \<in> set finished)) \<and>
            ((\<exists>e. completion out = Returns (Rejected e)) \<longleftrightarrow>
               (\<exists>i e. (i, Failure e) \<in> set finished)) \<and>
            (\<forall>e. completion out = Returns (Rejected e) \<longrightarrow>
               (\<exists>i e0. (i, Failure e0) \<in> set finished \<and> e = Error (error_to_string e0)))"
proof -
  let ?stmts = "map (\<lambda>columnDef. Run (''ALTER TABLE '' @ tableName @ '' '' @ op @ '' COLUMN '' @ columnDef) [])
                    columns"
  let ?finished = "fst (batch E ?stmts ord s)"
  let ?promises = "map (\<lambda>(i, r). (i, run_callback r)) ?finished"
  let ?p = "promise_all (length ?stmts) ?promises"
  let ?out = "alterTable E tableName operation columns ord s"
  have allowed: "operation \<in> set (map snd ALTER_OPERATION)"
    using assms(1,2) by (auto simp: ALTER_OPERATION_def)
  have out: "?out = \<lparr>completion = Returns (case ?p of Pending \<Rightarrow> Pending
                                          | Fulfilled vs \<Rightarrow> Fulfilled (Some vs)
                                          | Rejected e \<Rightarrow> Rejected e),
                     issued = ?stmts, db = snd (batch E ?stmts ord s)\<rparr>"
    using allowed assms(1,3)
    by (simp add: alterTable_def Let_def comp_def split: prod.splits)
  have d: "distinct (map fst ?promises)"
    by (simp only: map_fst_tag batch_distinct)
  have no_failure: "\<not> (\<exists>i e. (i, Failure e) \<in> set ?finished)"
    if all: "\<forall>i<length columns. \<exists>rows. (i, Success rows) \<in> set ?finished"
  proof
    assume "\<exists>i e. (i, Failure e) \<in> set ?finished"
    then obtain i e where f: "(i, Failure e) \<in> set ?finished" by blast
    then have "i < length columns" using batch_bound [OF f] by simp
    then obtain rows where "(i, Success rows) \<in> set ?finished" using all by blast
    then have "Failure e = Success rows"
      using f batch_distinct [of E ?stmts ord s] by (metis eq_key_imp_eq_value)
    then show False by simp
  qed
  have "(\<exists>vs. ?p = Fulfilled vs) \<longleftrightarrow>
        (\<forall>i e. (i, Inl e) \<notin> set ?promises) \<and> (\<forall>i<length ?stmts. \<exists>v. (i, Inr v) \<in> set ?promises)"
    by (rule promise_all_fulfilled [OF d])
  then have ful: "(\<exists>vs. ?p = Fulfilled vs) \<longleftrightarrow>
        (\<forall>i<length columns. \<exists>rows. (i, Success rows) \<in> set ?finished)"
    using no_failure by (simp only: run_callback_Inl run_callback_Inr length_map) blast
  have rej: "(\<exists>e. ?p = Rejected e) \<longleftrightarrow> (\<exists>i e. (i, Failure e) \<in> set ?finished)"
    by (simp only: promise_all_rejected run_callback_Inl) blast
  have rej_with: "\<exists>i e0. (i, Failure e0) \<in> set ?finished \<and> e = Error (error_to_string e0)"
    if "?p = Rejected e" for e
    using promise_all_rejected_with [OF that] by (simp only: run_callback_Inl)
  have c1: "(\<exists>v. completion ?out = Returns (Fulfilled v)) \<longleftrightarrow> (\<exists>vs. ?p = Fulfilled vs)"
    by (cases ?p) (simp_all add: out)
  have c2: "completion ?out = Returns (Rejected e) \<longleftrightarrow> ?p = Rejected e" for e
    by (cases ?p) (simp_all add: out)
  have i: "issued ?out = ?stmts" and b: "db ?out = snd (batch E ?stmts ord s)"
    by (simp_all add: out)
  show ?thesis
    unfolding Let_def using i b ful rej rej_with c1 c2 by (simp only: length_map) blast
qed

lemma demo_batch_drop:
  \<open>batch demo_engine [Run ''ALTER TABLE users DROP COLUMN email'' [],
                      Run ''ALTER TABLE users DROP COLUMN missing'' []] [Suc 0, 0] [] =
     ([(Suc 0, Failure (Error ''SQLITE_ERROR: no such column: "missing"'')), (0, Success [])],
      [Run ''ALTER TABLE users DROP COLUMN email'' []])\<close>
  by (simp add: batch_def demo_engine_def)

theorem alterTable_batch_witness:
  "JStr ''DROP'' = JStr ''DROP'' \<and> (''DROP'' = ''ADD'' \<or> ''DROP'' = ''DROP'') \<and> [''email'', ''missing''] \<noteq> [] \<and>
   issued (alterTable demo_engine ''users'' (JStr ''DROP'') [''email'', ''missing''] [1, 0] []) =
     [Run ''ALTER TABLE users DROP COLUMN email'' [], Run ''ALTER TABLE users DROP COLUMN missing'' []] \<and>
   (\<exists>e. completion (alterTable demo_engine ''users'' (JStr ''DROP'') [''email'', ''missing''] [1, 0] []) =
          Returns (Rejected e))"
  using alterTable_batch [of "JStr ''DROP''" "''DROP''" "[''email'', ''missing'']" "''users''" demo_engine "[1, 0]" "[]"]
  by (simp add: Let_def demo_batch_drop)

subsection \<open>createTable\<close>

text \<open>
  C8. \<^verbatim>\<open>createTable\<close> hands the engine the one statement
  \<^verbatim>\<open>CREATE TABLE IF NOT EXISTS name (columnDefs)\<close>, the same text at every call with the
  same name and definitions. So on an engine that honours \<^verbatim>\<open>IF NOT EXISTS\<close> (a statement
  that starts with \<^verbatim>\<open>CREATE TABLE IF NOT EXISTS\<close> and has just succeeded succeeds again and
  changes nothing), a call that succeeded can be repeated at once: the second call is
  fulfilled too and leaves the database in the state the first one left.
\<close>

theorem createTable_twice:
  assumes engine: "\<And>sql s rows s'. prefix ''CREATE TABLE IF NOT EXISTS '' sql \<Longrightarrow>
                     E (Run sql []) s = (Success rows, s') \<Longrightarrow> \<exists>rows'. E (Run sql []) s' = (Success rows', s')"
      and first: "completion (createTable E tableName columns s) = Returns (Fulfilled ())"
  shows "let once = createTable E tableName columns s;
             twice = createTable E tableName columns (db once)
         in completion twice = Returns (Fulfilled ()) \<and> db twice = db once \<and>
            issued twice = issued once \<and>
            issued once = [Run (''CREATE TABLE IF NOT EXISTS '' @ tableName @ '' ('' @ join '', '' columns @ '')'') []]"
proof -
  let ?sql = "''CREATE TABLE IF NOT EXISTS '' @ tableName @ '' ('' @ join '', '' columns @ '')''"
  obtain r s1 where e1: "E (Run ?sql []) s = (r, s1)" by (cases "E (Run ?sql []) s")
  have once: "createTable E tableName columns s =
              \<lparr>completion = Returns (settle (run_callback r)), issued = [Run ?sql []], db = s1\<rparr>"
    using e1 by (simp add: createTable_def)
  from first once obtain rows where r: "r = Success rows"
    by (cases r) simp_all
  have "prefix ''CREATE TABLE IF NOT EXISTS '' ?sql"
    by (rule prefixI) simp
  from engine [OF this e1 [unfolded r]] obtain rows' where e2: "E (Run ?sql []) s1 = (Success rows', s1)"
    by blast
  have twice: "createTable E tableName columns s1 =
              \<lparr>completion = Returns (Fulfilled ()), issued = [Run ?sql []], db = s1\<rparr>"
    using e2 by (simp add: createTable_def)
  show ?thesis
    unfolding Let_def by (simp add: once twice)
qed

lemma demo_engine_if_not_exists:
  assumes "demo_engine (Run sql []) s = (Success rows, s')"
  shows "\<exists>rows'. demo_engine (Run sql []) s' = (Success rows', s')"
  using assms by (auto simp: demo_engine_def split: if_splits)

theorem createTable_twice_witness:
  "completion (createTable demo_engine ''users'' [''id INTEGER PRIMARY KEY'', ''name TEXT''] []) = Returns (Fulfilled ()) \<and>
   completion (createTable demo_engine ''users'' [''id INTEGER PRIMARY KEY'', ''name TEXT'']
      (db (createTable demo_engine ''users'' [''id INTEGER PRIMARY KEY'', ''name TEXT''] []))) = Returns (Fulfilled ()) \<and>
   db (createTable demo_engine ''users'' [''id INTEGER PRIMARY KEY'', ''name TEXT'']
      (db (createTable demo_engine ''users'' [''id INTEGER PRIMARY KEY'', ''name TEXT''] [])))
     = [Run ''CREATE TABLE IF NOT EXISTS users (id INTEGER PRIMARY KEY, name TEXT)'' []]"
proof -
  have first: "completion (createTable demo_engine ''users'' [''id INTEGER PRIMARY KEY'', ''name TEXT''] [])
               = Returns (Fulfilled ())"
    by (simp add: createTable_def demo_engine_def Let_def)
  have d: "db (createTable demo_engine ''users'' [''id INTEGER PRIMARY KEY'', ''name TEXT''] [])
           = [Run ''CREATE TABLE IF NOT EXISTS users (id INTEGER PRIMARY KEY, name TEXT)'' []]"
    by (simp add: createTable_def demo_engine_def Let_def)
  show ?thesis
    using createTable_twice [of demo_engine "''users''" "[''id INTEGER PRIMARY KEY'', ''name TEXT'']" "[]",
                             OF demo_engine_if_not_exists first] first d
    by (simp add: Let_def)
qed

subsection \<open>getTableColumns\<close>

text \<open>
  \<^verbatim>\<open>getTableColumns\<close> puts the table name into the pragma as it is, and what it returns
  follows the engine's answer, not the catalog. On the engine of the examples the empty
  name names no table and \<^verbatim>\<open>my table\<close> names the one table there is; for both the pragma's
  text does not parse, the engine reports the error, and the promise is rejected: not the
  empty array for the first, no entries for the second.
\<close>

theorem getTableColumns_rejects_counterexample:
  \<open>demo_engine (All catalog_query) [] =
     (Success [[(''type'', JStr ''table''), (''name'', JStr ''my table'')]], []) \<and>
   completion (getTableColumns demo_engine '''' []) =
     Returns (Rejected (Error ''SQLITE_ERROR: near ")": syntax error'')) \<and>
   completion (getTableColumns demo_engine ''my table'' []) =
     Returns (Rejected (Error ''SQLITE_ERROR: near "table": syntax error''))\<close>
  by (simp add: getTableColumns_def table_info_def demo_engine_def catalog_query_def)

text \<open>
  C9, as the code has it. \<^verbatim>\<open>getTableColumns\<close> hands the engine the one statement
  \<^verbatim>\<open>PRAGMA table_info(tableName);\<close>, the name put in as it is, and the engine's answer
  decides. An answer without an error fulfils the promise with one \<^verbatim>\<open>{name, type}\<close> entry
  per row of the answer, in the answer's order, so that the promise is fulfilled with the
  empty array exactly when the answer has no row (what the engine answers for a name that
  parses and is no table). An error, as for a name that does not parse inside the pragma,
  rejects the promise with that error, whether there is such a table or not.
\<close>

theorem getTableColumns_outcome:
  "getTableColumns E tableName s =
     (case E (All (''PRAGMA table_info('' @ tableName @ '');'')) s of
        (Failure error, s') \<Rightarrow>
          \<lparr>completion = Returns (Rejected error),
           issued = [All (''PRAGMA table_info('' @ tableName @ '');'')], db = s'\<rparr>
      | (Success columns, s') \<Rightarrow>
          \<lparr>completion = Returns (Fulfilled (map (\<lambda>column. [(''name'', get column ''name''),
                                                          (''type'', get column ''type'')]) columns)),
           issued = [All (''PRAGMA table_info('' @ tableName @ '');'')], db = s'\<rparr>)
   \<and> (completion (getTableColumns E tableName s) = Returns (Fulfilled []) \<longleftrightarrow>
        fst (E (All (''PRAGMA table_info('' @ tableName @ '');'')) s) = Success [])"
proof -
  obtain r s' where e: "E (All (''PRAGMA table_info('' @ tableName @ '');'')) s = (r, s')"
    by (cases "E (All (''PRAGMA table_info('' @ tableName @ '');'')) s")
  show ?thesis
    using e by (cases r) (simp_all add: getTableColumns_def table_info_def Let_def column_info_def [abs_def])
qed

theorem getTableColumns_outcome_witness:
  \<open>completion (getTableColumns demo_engine ''users'' []) =
     Returns (Fulfilled [[(''name'', JStr ''id''), (''type'', JStr ''INTEGER'')],
                         [(''name'', JStr ''name''), (''type'', JStr ''TEXT'')]]) \<and>
   completion (getTableColumns demo_engine ''ghosts'' []) = Returns (Fulfilled []) \<and>
   completion (getTableColumns demo_engine ''my table'' []) =
     Returns (Rejected (Error ''SQLITE_ERROR: near "table": syntax error''))\<close>
  using getTableColumns_outcome [of demo_engine "''users''" "[]"]
        getTableColumns_outcome [of demo_engine "''ghosts''" "[]"]
        getTableColumns_outcome [of demo_engine "''my table''" "[]"]
  by (simp add: demo_engine_def catalog_query_def get_def)

subsection \<open>The constructor\<close>

text \<open>
  C3. Called without a file path, the constructor hands the engine \<^verbatim>\<open>undefined\<close>: the
  fallback \<^verbatim>\<open>MyDatabase.DATABASE_FILE_PATH\<close> reads a public static property that the class
  does not have. This is neither the name of the in-memory database nor the default file.
\<close>

theorem constructor_without_path:
  "opened (constructor opn E dirname JUndefined) = JUndefined \<and>
   opened (constructor opn E dirname JUndefined) \<noteq> in_memory \<and>
   opened (constructor opn E dirname JUndefined) \<noteq> JStr (DATABASE_FILE_PATH dirname)"
  by (simp add: constructor_def js_or_def MyDatabase_static_def in_memory_def Let_def
           split: prod.splits sum.splits)

text \<open>A file path that is given (a string that is not empty) is handed to the engine as it is.\<close>

lemma constructor_with_path:
  "path \<noteq> [] \<Longrightarrow> opened (constructor opn E dirname (JStr path)) = JStr path"
  by (simp add: constructor_def js_or_def Let_def split: prod.splits sum.splits)

text \<open>
  When the engine's constructor throws at \<^verbatim>\<open>undefined\<close>, as the driver does at anything but
  a string, the call without a file path throws with it and nothing is issued.
\<close>

lemma constructor_driver_throws:
  assumes "opn JUndefined = Inl error"
  shows "constructor opn E dirname JUndefined =
           \<lparr>opened = JUndefined, thrown = Some error, logged = [], startup = [], connection = None\<rparr>"
  using assms by (simp add: constructor_def js_or_def MyDatabase_static_def)

subsection \<open>getAllTables\<close>

text \<open>
  The methods with one statement pass the engine's error on: \<^verbatim>\<open>createTable\<close> rejects with
  an \<^verbatim>\<open>Error\<close> that wraps its text, \<^verbatim>\<open>getTableColumns\<close> with the error itself. The
  constructor only logs the error of its pragma.
\<close>

lemma createTable_failure:
  assumes "E (Run (''CREATE TABLE IF NOT EXISTS '' @ tableName @ '' ('' @ join '', '' columns @ '')'') []) s
           = (Failure error, s')"
  shows "completion (createTable E tableName columns s) = Returns (Rejected (Error (error_to_string error)))"
  using assms by (simp add: createTable_def)

lemma getTableColumns_failure:
  assumes "E (All (''PRAGMA table_info('' @ tableName @ '');'')) s = (Failure error, s')"
  shows "completion (getTableColumns E tableName s) = Returns (Rejected error)"
  using assms by (simp add: getTableColumns_def table_info_def)

lemma constructor_pragma_failure:
  assumes "opn (js_or filePath JUndefined) = Inr s0"
      and "E (Run ''PRAGMA foreign_keys = ON;'' []) s0 = (Failure error, s)"
  shows "logged (constructor opn E dirname filePath) = [error] \<and>
         thrown (constructor opn E dirname filePath) = None"
  using assms by (simp add: constructor_def MyDatabase_static_def Let_def)

text \<open>In \<^verbatim>\<open>getAllTables\<close>, a failure of the catalog query rejects the promise, with the engine's error.\<close>

lemma getAllTables_catalog_failure:
  assumes "E (All catalog_query) s = (Failure error, s')"
  shows "getAllTables E ord s =
           \<lparr>completion = Returns (Rejected error), issued = [All catalog_query], db = s'\<rparr>"
  using assms by (simp add: getAllTables_def)

text \<open>
  But once the catalog query has succeeded, a failure of the column query of any one
  table leaves the promise pending for ever, whatever the engine and the tables.
\<close>

lemma getAllTables_column_failure_pending:
  assumes catalog: "E (All catalog_query) s = (Success tables, s1)"
      and failed: "(i, Failure e) \<in> set (fst (batch E
                      (map (\<lambda>table. All (''PRAGMA table_info('' @ to_string (get table ''name'') @ '');'')) tables)
                      ord s1))"
  shows "completion (getAllTables E ord s) = Returns Pending"
proof -
  let ?names = "map (\<lambda>table. get table ''name'') tables"
  let ?stmts = "map (\<lambda>table. All (''PRAGMA table_info('' @ to_string (get table ''name'') @ '');'')) tables"
  let ?finished = "fst (batch E ?stmts ord s1)"
  let ?promises = "map (\<lambda>(i, r). (i, case columns_callback r of
                                        Inl error \<Rightarrow> Inl error
                                      | Inr columns \<Rightarrow> Inr (?names ! i, columns))) ?finished"
  let ?p = "promise_all (length ?stmts) ?promises"
  have "(i, Inl e) \<in> (\<lambda>(i, r). (i, case columns_callback r of
                                        Inl error \<Rightarrow> Inl error
                                      | Inr columns \<Rightarrow> Inr (?names ! i, columns))) ` set ?finished"
    using failed by (rule rev_image_eqI) simp
  then have "(i, Inl e) \<in> set ?promises" by simp
  then obtain e' where "?p = Rejected e'"
    using promise_all_rejected [of "length ?stmts" ?promises] by blast
  then show ?thesis
    using catalog by (simp add: getAllTables_def Let_def comp_def split_def table_info_def)
qed

text \<open>
  C4. An error that the engine reports for a statement is not always passed on:
  \<^verbatim>\<open>getAllTables\<close> on a database with a table named \<^verbatim>\<open>my table\<close>. The catalog query
  succeeds, the engine rejects the column query \<^verbatim>\<open>PRAGMA table_info(my table);\<close>, and the
  promise that \<^verbatim>\<open>getAllTables\<close> returned is neither rejected nor fulfilled.
\<close>

theorem getAllTables_column_failure:
  \<open>demo_engine (All catalog_query) [] = (Success [[(''type'', JStr ''table''), (''name'', JStr ''my table'')]], []) \<and>
   demo_engine (All ''PRAGMA table_info(my table);'') [] =
     (Failure (Error ''SQLITE_ERROR: near "table": syntax error''), []) \<and>
   getAllTables demo_engine [0] [] =
     \<lparr>completion = Returns Pending,
      issued = [All catalog_query, All ''PRAGMA table_info(my table);''], db = []\<rparr>\<close>
  by (simp add: getAllTables_def demo_engine_def batch_def promise_all_def get_def catalog_query_def
                table_info_def)

end
